theory Spec2Isabelle
  imports Complex_Main
begin

section \<open>The falling-body simulator (app.py)\<close>

text \<open>
  The program evaluates closed-form kinematics on a time grid and hands the series to a
  plotting library. Python floats are modelled as real numbers: rounding is not part of
  the model, the overflow of \<open>np.e ** z\<close> beyond the largest double is. Integers
  (\<open>h\<close>, \<open>m\<close>, \<open>seconds\<close>, \<open>fps\<close>) are Python's unbounded ints. A numpy array
  is a list of reals. Python strings are given by their UTF-8 bytes, so equality of
  strings is equality of the byte lists.
\<close>

subsection \<open>Outcomes of a call\<close>

text \<open>
  A call returns a value, raises one of Python's exceptions, or leaves the real numbers
  without raising: a negative float to the power 0.5 is a complex number, and numpy
  answers a division of an array by zero and an overflow with inf or nan and a warning
  only. The last case is \<open>Unmodelled\<close>: the program goes on with values that are
  not real numbers, and the model says nothing about what follows.
\<close>

datatype exn = ValueError | ZeroDivisionError | IndexError

datatype 'a outcome = Returns 'a | Raises exn | Unmodelled

fun and_then :: "'a outcome \<Rightarrow> ('a \<Rightarrow> 'b outcome) \<Rightarrow> 'b outcome" where
  "and_then (Returns v) f = f v"
| "and_then (Raises e) f = Raises e"
| "and_then Unmodelled f = Unmodelled"

fun returns :: "'a outcome \<Rightarrow> bool" where
  "returns (Returns v) = True"
| "returns (Raises e) = False"
| "returns Unmodelled = False"

subsection \<open>Constants and string literals\<close>

definition g :: real where
  "g = 9.80665"

definition rho :: real where
  "rho = 1.225"

text \<open>\<open>np.e\<close>, the base of \<open>np.e ** z\<close>.\<close>

definition np_e :: real where
  "np_e = exp 1"

text \<open>
  The largest finite double, \<open>(2 ^ 53 - 1) * 2 ^ 971\<close>, about \<open>1.8e308\<close>. On an
  array, \<open>np.e ** z\<close> beyond it is inf, which happens from \<open>z\<close> about 709.78 on.
\<close>

definition float_max :: real where
  "float_max = (2 ^ 53 - 1) * 2 ^ 971"

definition overflows :: "real \<Rightarrow> bool" where
  "overflows z = (float_max < np_e powr z)"

text \<open>The two options of the mode radio button, the first one being the velocity graph.\<close>

definition mode_velocity :: string where
  "mode_velocity = [CHR 0xEC, CHR 0x86, CHR 0x8D, CHR 0xEB, CHR 0x8F, CHR 0x84]"

definition mode_height :: string where
  "mode_height = [CHR 0xEB, CHR 0x86, CHR 0x92, CHR 0xEC, CHR 0x9D, CHR 0xB4]"

text \<open>The quality labels returned by \<open>format_quality\<close>: low, medium, high.\<close>

definition label_low :: string where
  "label_low = [CHR 0xEB, CHR 0x82, CHR 0xAE, CHR 0xEC, CHR 0x9D, CHR 0x8C]"

definition label_medium :: string where
  "label_medium = [CHR 0xEC, CHR 0xA4, CHR 0x91, CHR 0xEA, CHR 0xB0, CHR 0x84]"

definition label_high :: string where
  "label_high = [CHR 0xEB, CHR 0x86, CHR 0x92, CHR 0xEC, CHR 0x9D, CHR 0x8C]"

subsection \<open>Library operations the program calls\<close>

text \<open>
  \<open>np.linspace(start, stop, num)\<close> with the default \<open>endpoint=True\<close>: a negative
  \<open>num\<close> raises ValueError; otherwise \<open>num\<close> samples \<open>start + i * step\<close> with
  \<open>step = (stop - start) / (num - 1)\<close>, the last one overwritten by \<open>stop\<close> when
  \<open>num > 1\<close>. For \<open>num = 1\<close> the only sample is \<open>start\<close>.
\<close>

definition linspace :: "real \<Rightarrow> real \<Rightarrow> int \<Rightarrow> real list outcome" where
  "linspace start stop num =
     (if num < 0 then Raises ValueError
      else if num = 1 then Returns [start]
      else
        (let n = nat num;
             step = (stop - start) / real_of_int (num - 1);
             y = map (\<lambda>i. real i * step + start) [0..<n]
         in Returns (if 1 < num then y[n - 1 := stop] else y)))"

text \<open>Indexing \<open>xs[i]\<close>: a negative index counts from the end, out of range raises.\<close>

definition index :: "'a list \<Rightarrow> int \<Rightarrow> 'a outcome" where
  "index xs i =
     (let n = int (length xs); j = (if i < 0 then n + i else i)
      in if 0 \<le> j \<and> j < n then Returns (xs ! nat j) else Raises IndexError)"

text \<open>The slice \<open>xs[:k]\<close>: a negative \<open>k\<close> counts from the end, and nothing raises.\<close>

definition slice_to :: "'a list \<Rightarrow> int \<Rightarrow> 'a list" where
  "slice_to xs k = (if k < 0 then take (nat (int (length xs) + k)) xs else take (nat k) xs)"

text \<open>True division of two Python numbers, \<open>a / b\<close>.\<close>

definition true_div :: "real \<Rightarrow> real \<Rightarrow> real outcome" where
  "true_div a b = (if b = 0 then Raises ZeroDivisionError else Returns (a / b))"

text \<open>
  \<open>b ** 0.5\<close> on a Python float: the square root of a non-negative base, and a
  complex number for a negative one.
\<close>

definition pow_half :: "real \<Rightarrow> real outcome" where
  "pow_half b = (if b < 0 then Unmodelled else Returns (b powr (1 / 2)))"

subsection \<open>Kinematics\<close>

text \<open>
  \<open>simulate\<close> passes the whole time grid as \<open>t\<close>, and numpy applies the formulas to
  each element; a single time value is the one-element array.
\<close>

definition velocity :: "real list \<Rightarrow> real list" where
  "velocity t = map (\<lambda>t. g * t) t"

definition height :: "int \<Rightarrow> real list \<Rightarrow> real list" where
  "height h t = map (\<lambda>(v, t). real_of_int h - 0.5 * v * t) (zip (velocity t) t)"

definition terminal_velocity_with_air_resistance :: "real \<Rightarrow> real \<Rightarrow> int \<Rightarrow> real outcome" where
  "terminal_velocity_with_air_resistance Cd A m =
     and_then (true_div (2 * real_of_int m * g) (rho * Cd * A)) pow_half"

text \<open>
  With \<open>v_t = 0\<close> every element of a non-empty \<open>t\<close> is divided by zero, which numpy
  answers with inf or nan. Where \<open>np.e ** (2 * g * t / v_t)\<close> overflows to inf, the
  velocity at that \<open>t\<close> is \<open>inf / inf\<close>, a nan, and the height is \<open>-inf\<close>. (On a
  single Python float instead of an array, the same power raises OverflowError.)
\<close>

definition velocity_with_air_resistance ::
    "real \<Rightarrow> real \<Rightarrow> int \<Rightarrow> real list \<Rightarrow> real list outcome" where
  "velocity_with_air_resistance Cd A m t =
     and_then (terminal_velocity_with_air_resistance Cd A m) (\<lambda>v_t.
       if v_t = 0 \<and> t \<noteq> [] then Unmodelled
       else if list_ex (\<lambda>t. overflows (2 * g * t / v_t)) t then Unmodelled
       else Returns (map (\<lambda>t.
         v_t * (np_e powr (2 * g * t / v_t) - 1) / (np_e powr (2 * g * t / v_t) + 1)) t))"

definition height_with_air_resistance ::
    "real \<Rightarrow> real \<Rightarrow> int \<Rightarrow> int \<Rightarrow> real list \<Rightarrow> real list outcome" where
  "height_with_air_resistance Cd A h m t =
     and_then (terminal_velocity_with_air_resistance Cd A m) (\<lambda>v_t.
       if v_t = 0 \<and> t \<noteq> [] then Unmodelled
       else if list_ex (\<lambda>t. overflows (2 * g * t / v_t)) t then Unmodelled
       else Returns (map (\<lambda>t.
         real_of_int h +
           (v_t * t
            - v_t ^ 2 / g * ln (np_e powr (2 * g * t / v_t) + 1)
            + v_t ^ 2 / g * ln 2)) t))"


subsection \<open>The simulation\<close>

text \<open>
  What \<open>simulate\<close> asks of matplotlib: the axis limits and labels, the title, the
  animation (frame function, number of frames, interval in milliseconds) and the
  arguments of \<open>ani.save\<close>. Plotting and encoding themselves are outside the program.
\<close>

record rendering =
  data_x :: "real list"
  data_y :: "real list"
  xlim :: "real \<times> real"
  xlabel :: string
  ylim :: "real \<times> real"
  ylabel :: string
  title :: string
  func :: "int \<Rightarrow> real list \<times> real list"
  frames :: int
  interval :: real
  save_filename :: string
  save_writer :: string
  save_fps :: int

text \<open>Line 53: the time grid.\<close>

definition time_grid :: "int \<Rightarrow> int \<Rightarrow> real list outcome" where
  "time_grid seconds fps = linspace 0 (real_of_int seconds) (fps * seconds + 1)"

text \<open>Lines 55 to 67: the model and the quantity are chosen, and evaluated on the grid.\<close>

definition series ::
    "real \<Rightarrow> real \<Rightarrow> int \<Rightarrow> int \<Rightarrow> bool \<Rightarrow> string \<Rightarrow> real list \<Rightarrow> real list outcome" where
  "series Cd A h m air_resistance mode x =
     (if air_resistance then
        (if mode = mode_velocity then velocity_with_air_resistance Cd A m x
         else height_with_air_resistance Cd A h m x)
      else
        (if mode = mode_velocity then Returns (velocity x)
         else Returns (height h x)))"

text \<open>Lines 76 to 82: the limits and the label of the y axis (\<open>y[-0]\<close> is \<open>y[0]\<close>).\<close>

definition y_axis :: "string \<Rightarrow> real list \<Rightarrow> ((real \<times> real) \<times> string) outcome" where
  "y_axis mode y =
     (if mode = mode_velocity then
        and_then (index y (-1)) (\<lambda>y_last.
          Returns ((0, y_last * 1.1), ''Velocity (m/s)''))
      else
        and_then (index y (-1)) (\<lambda>y_last.
        and_then (index y 0) (\<lambda>y_first.
          Returns ((y_last * 1.1, y_first * 1.1), ''Height (m)''))))"

text \<open>Lines 84 to 87: the frame function, closed over \<open>x\<close> and \<open>y\<close>.\<close>

definition update :: "real list \<Rightarrow> real list \<Rightarrow> int \<Rightarrow> real list \<times> real list" where
  "update x y frame = (slice_to x frame, slice_to y frame)"

definition simulate ::
    "real \<Rightarrow> real \<Rightarrow> int \<Rightarrow> int \<Rightarrow> bool \<Rightarrow> string \<Rightarrow> int \<Rightarrow> int \<Rightarrow> rendering outcome" where
  "simulate Cd A h m air_resistance mode seconds fps =
     and_then (time_grid seconds fps) (\<lambda>x.
     and_then (series Cd A h m air_resistance mode x) (\<lambda>y.
     and_then (index x 0) (\<lambda>x_first.
     and_then (index x (-1)) (\<lambda>x_last.
     and_then (y_axis mode y) (\<lambda>(y_limits, y_label).
     and_then (true_div 1000 (real_of_int fps)) (\<lambda>ms.
       Returns \<lparr>
         data_x = x,
         data_y = y,
         xlim = (x_first, x_last * 1.1),
         xlabel = ''Time (s)'',
         ylim = y_limits,
         ylabel = y_label,
         title = (if air_resistance then ''Fall Motion with Air Resistance''
                  else ''Free Fall Motion''),
         func = update x y,
         frames = int (length x),
         interval = ms,
         save_filename = ''video.mp4'',
         save_writer = ''ffmpeg'',
         save_fps = fps
       \<rparr>))))))"

subsection \<open>The quality label of the form\<close>

definition format_quality :: "int \<Rightarrow> string" where
  "format_quality quality =
     (if quality = 20 then label_low
      else if quality = 30 then label_medium
      else label_high)"

section \<open>Properties\<close>

subsection \<open>Auxiliary facts\<close>

lemma np_e_powr: "np_e powr z = exp z"
  by (simp add: np_e_def powr_def)

lemma overflows_exp: "overflows z \<longleftrightarrow> float_max < exp z"
  by (simp add: overflows_def np_e_powr)

lemma not_overflows_mono:
  assumes "z \<le> z'" "\<not> overflows z'"
  shows "\<not> overflows z"
proof -
  have "exp z \<le> exp z'" using assms(1) by simp
  then show ?thesis using assms(2) unfolding overflows_exp by linarith
qed

lemma not_overflows_small:
  assumes "z \<le> 5"
  shows "\<not> overflows z"
proof -
  have "exp z \<le> exp (5::real)" using assms by simp
  also have "exp (5::real) = exp 1 ^ 5"
    using exp_of_nat_mult [of 5 "1::real"] by simp
  also have "\<dots> \<le> 3 ^ 5"
    by (rule power_mono) (simp_all add: exp_le)
  also have "\<dots> \<le> float_max"
    by (simp add: float_max_def)
  finally show ?thesis by (simp add: overflows_exp)
qed


lemma exp_form_tanh: "(exp (2 * z) - 1) / (exp (2 * z) + 1) = tanh (z::real)"
proof -
  define w where "w = exp (2 * z)"
  have p: "0 < w" by (simp add: w_def)
  have i: "exp (- 2 * z) = 1 / w"
    by (simp add: w_def exp_minus field_simps)
  have a: "1 - 1 / w = (w - 1) / w"
    using p by (simp add: diff_divide_distrib)
  have b: "1 + 1 / w = (w + 1) / w"
    using p by (simp add: add_divide_distrib)
  have "(1 - 1 / w) / (1 + 1 / w) = (w - 1) / (w + 1)"
    unfolding a b using p by simp
  then show ?thesis
    unfolding tanh_real_altdef i w_def [symmetric] by simp
qed

lemma terminal_velocity_pos:
  assumes "0 < Cd * A" "0 < m"
  shows "terminal_velocity_with_air_resistance Cd A m =
           Returns (sqrt (2 * real_of_int m * g / (rho * Cd * A)))"
    and "0 < sqrt (2 * real_of_int m * g / (rho * Cd * A))"
proof -
  have z: "Cd \<noteq> 0" "A \<noteq> 0" "rho \<noteq> 0"
    using assms(1) by (auto simp: rho_def)
  have d: "0 < rho * Cd * A"
    using assms(1) by (simp add: rho_def mult.assoc)
  have n: "0 < 2 * real_of_int m * g"
    using assms(2) by (simp add: g_def)
  have q: "0 < 2 * real_of_int m * g / (rho * Cd * A)"
    using d n by (rule_tac divide_pos_pos)
  show "terminal_velocity_with_air_resistance Cd A m =
           Returns (sqrt (2 * real_of_int m * g / (rho * Cd * A)))"
    using z q by (simp add: terminal_velocity_with_air_resistance_def true_div_def pow_half_def powr_half_sqrt)
  show "0 < sqrt (2 * real_of_int m * g / (rho * Cd * A))"
    using q by simp
qed

text \<open>
  Two concrete terminal velocities: about 44.5 m/s for the form's default values, and
  about 1.41 m/s for a mass of 1 kg, where 60 s are far beyond the overflow.
\<close>

lemma default_terminal_velocity:
  "\<exists>vt. terminal_velocity_with_air_resistance 0.42 19.25 1000 = Returns vt \<and> 40 \<le> vt"
proof -
  have "(40::real)\<^sup>2 \<le> 2 * real_of_int 1000 * g / (rho * 0.42 * 19.25)"
    by (simp add: g_def rho_def power2_eq_square)
  then have "40 \<le> sqrt (2 * real_of_int 1000 * g / (rho * 0.42 * 19.25))"
    by (rule real_le_rsqrt)
  then show ?thesis
    using terminal_velocity_pos(1) [of "0.42" "19.25" 1000] by simp
qed

lemma default_no_overflow:
  assumes "terminal_velocity_with_air_resistance 0.42 19.25 1000 = Returns vt" "t \<le> 10"
  shows "\<not> overflows (2 * g * t / vt)"
proof -
  have vt: "40 \<le> vt" using default_terminal_velocity assms(1) by auto
  have "2 * g * t \<le> 2 * g * 10" using assms(2) by (simp add: g_def)
  also have "\<dots> \<le> 5 * vt" using vt by (simp add: g_def)
  finally have "2 * g * t / vt \<le> 5" using vt by (simp add: field_simps)
  then show ?thesis by (rule not_overflows_small)
qed


lemma and_then_Returns_iff:
  "and_then a f = Returns v \<longleftrightarrow> (\<exists>u. a = Returns u \<and> f u = Returns v)"
  by (cases a) simp_all

lemma time_grid_negative:
  "fps * seconds + 1 < 0 \<Longrightarrow> time_grid seconds fps = Raises ValueError"
  by (simp add: time_grid_def linspace_def)

lemma time_grid_length:
  assumes "time_grid seconds fps = Returns x"
  shows "int (length x) = fps * seconds + 1"
  using assms
  by (auto simp: time_grid_def linspace_def Let_def split: if_splits)

lemma time_grid_returns:
  assumes "0 \<le> fps * seconds + 1"
  shows "\<exists>x. time_grid seconds fps = Returns x"
  using assms by (simp add: time_grid_def linspace_def Let_def)

lemma time_grid_uniform:
  assumes "1 \<le> seconds" "1 \<le> fps"
  shows "time_grid seconds fps =
           Returns (map (\<lambda>i. real i / real_of_int fps) [0..<nat (fps * seconds + 1)])"
proof -
  define n where "n = nat (fps * seconds + 1)"
  have fs: "1 \<le> fps * seconds"
    using assms by (metis mult_mono mult_1 zero_le_one order_trans)
  have n: "int n = fps * seconds + 1" "1 < n"
    using fs by (simp_all add: n_def)
  have step: "(real_of_int seconds - 0) / real_of_int (fps * seconds + 1 - 1) = 1 / real_of_int fps"
    using assms by simp
  have last: "real (n - 1) / real_of_int fps = real_of_int seconds"
  proof -
    have "real (n - 1) = real_of_int (int n - 1)"
      using n(2) by (simp add: of_nat_diff)
    also have "\<dots> = real_of_int fps * real_of_int seconds"
      using n(1) by simp
    finally show ?thesis using assms(2) by simp
  qed
  have "(map (\<lambda>i. real i * (1 / real_of_int fps) + 0) [0..<n])[n - 1 := real_of_int seconds] =
          map (\<lambda>i. real i / real_of_int fps) [0..<n]"
  proof (rule nth_equalityI)
    show "length ((map (\<lambda>i. real i * (1 / real_of_int fps) + 0) [0..<n])[n - 1 := real_of_int seconds]) =
            length (map (\<lambda>i. real i / real_of_int fps) [0..<n])"
      by simp
  next
    fix i
    assume "i < length ((map (\<lambda>i. real i * (1 / real_of_int fps) + 0) [0..<n])[n - 1 := real_of_int seconds])"
    then have i: "i < n" by simp
    show "(map (\<lambda>i. real i * (1 / real_of_int fps) + 0) [0..<n])[n - 1 := real_of_int seconds] ! i =
            map (\<lambda>i. real i / real_of_int fps) [0..<n] ! i"
    proof (cases "i = n - 1")
      case True
      then show ?thesis using i last by simp
    next
      case False
      then show ?thesis using i by simp
    qed
  qed
  then show ?thesis
    unfolding time_grid_def linspace_def Let_def step n_def [symmetric]
    using fs assms by simp
qed

subsection \<open>Kinematics\<close>

lemma velocity_with_air_resistance_pos:
  assumes tv: "terminal_velocity_with_air_resistance Cd A m = Returns vt"
    and p: "0 < vt"
    and fin: "\<forall>t \<in> set t. \<not> overflows (2 * g * t / vt)"
  shows "velocity_with_air_resistance Cd A m t =
           Returns (map (\<lambda>t. vt * tanh (g * t / vt)) t)"
proof -
  have e: "vt * (exp (2 * g * t / vt) - 1) / (exp (2 * g * t / vt) + 1) = vt * tanh (g * t / vt)"
    for t
  proof -
    have a: "2 * g * t / vt = 2 * (g * t / vt)" by simp
    have "vt * (exp (2 * g * t / vt) - 1) / (exp (2 * g * t / vt) + 1) =
            vt * ((exp (2 * (g * t / vt)) - 1) / (exp (2 * (g * t / vt)) + 1))"
      unfolding a by simp
    then show ?thesis unfolding exp_form_tanh .
  qed
  have n: "\<not> list_ex (\<lambda>t. overflows (2 * g * t / vt)) t"
    using fin by (simp add: list_ex_iff)
  show ?thesis
    unfolding velocity_with_air_resistance_def tv
    using p n by (simp add: np_e_powr e)
qed



lemma height_with_air_resistance_pos:
  assumes tv: "terminal_velocity_with_air_resistance Cd A m = Returns vt"
    and p: "0 < vt"
    and fin: "\<forall>t \<in> set t. \<not> overflows (2 * g * t / vt)"
  shows "\<exists>y. height_with_air_resistance Cd A h m t = Returns y \<and> length y = length t"
proof -
  have n: "\<not> list_ex (\<lambda>t. overflows (2 * g * t / vt)) t"
    using fin by (simp add: list_ex_iff)
  show ?thesis
    unfolding height_with_air_resistance_def tv using p n by simp
qed







text \<open>
  C6. For positive \<open>Cd\<close>, \<open>A\<close>, \<open>m\<close> and any initial height, the height with air
  resistance at \<open>t = 0\<close> is the initial height: the drag terms cancel.
\<close>

theorem height_with_air_resistance_at_zero:
  assumes "0 < Cd" "0 < A" "0 < m"
  shows "height_with_air_resistance Cd A h m [0] = Returns [real_of_int h]"
proof -
  have ca: "0 < Cd * A" using assms(1,2) by simp
  define vt where "vt = sqrt (2 * real_of_int m * g / (rho * Cd * A))"
  have tv: "terminal_velocity_with_air_resistance Cd A m = Returns vt" and p: "0 < vt"
    unfolding vt_def using terminal_velocity_pos [OF ca assms(3)] by simp_all
  have fin: "\<not> overflows (2 * g * 0 / vt)"
    by (rule not_overflows_small) simp
  show ?thesis
    unfolding height_with_air_resistance_def tv using p fin by (simp add: np_e_powr)
qed

theorem height_with_air_resistance_at_zero_witness:
  "height_with_air_resistance 0.42 19.25 70 1000 [0] = Returns [70]"
  using height_with_air_resistance_at_zero [of "0.42" "19.25" 1000 70] by simp

text \<open>
  C7. For \<open>Cd * A > 0\<close> and \<open>m > 0\<close> the terminal velocity is
  \<open>sqrt (2 * m * g / (rho * Cd * A))\<close> with \<open>g = 9.80665\<close> and \<open>rho = 1.225\<close>;
  for \<open>Cd * A = 0\<close> the division by zero raises.
\<close>

theorem terminal_velocity_formula:
  "(0 < Cd * A \<and> 0 < m \<longrightarrow>
      terminal_velocity_with_air_resistance Cd A m =
        Returns (sqrt (2 * real_of_int m * 9.80665 / (1.225 * Cd * A)))) \<and>
   (Cd * A = 0 \<longrightarrow>
      terminal_velocity_with_air_resistance Cd A m = Raises ZeroDivisionError)"
proof (intro conjI impI)
  assume "0 < Cd * A \<and> 0 < m"
  then show "terminal_velocity_with_air_resistance Cd A m =
        Returns (sqrt (2 * real_of_int m * 9.80665 / (1.225 * Cd * A)))"
    using terminal_velocity_pos(1) [of Cd A m] by (simp add: g_def rho_def)
next
  assume "Cd * A = 0"
  then show "terminal_velocity_with_air_resistance Cd A m = Raises ZeroDivisionError"
    by (auto simp: terminal_velocity_with_air_resistance_def true_div_def)
qed

theorem terminal_velocity_formula_witness:
  "terminal_velocity_with_air_resistance 0.42 19.25 1000 =
     Returns (sqrt (2 * 1000 * 9.80665 / (1.225 * 0.42 * 19.25))) \<and>
   terminal_velocity_with_air_resistance 0 19.25 1000 = Raises ZeroDivisionError"
  using terminal_velocity_formula [of "0.42" "19.25" 1000]
    terminal_velocity_formula [of 0 "19.25" 1000]
  by simp

subsection \<open>The quality label\<close>

text \<open>
  C9. The quality label is the low label for 20, the medium label for 30 and the high
  label for every other value, 60 among them.
\<close>

theorem format_quality_mapping:
  "format_quality 20 = label_low \<and> format_quality 30 = label_medium \<and>
   format_quality 60 = label_high \<and>
   (\<forall>q. q \<noteq> 20 \<and> q \<noteq> 30 \<longrightarrow> format_quality q = label_high)"
  by (simp add: format_quality_def)

theorem format_quality_mapping_witness:
  "(45::int) \<noteq> 20 \<and> (45::int) \<noteq> 30 \<and> format_quality 45 = label_high"
  using format_quality_mapping by simp

subsection \<open>The time grid\<close>

text \<open>
  C5. For \<open>seconds \<ge> 1\<close> and \<open>fps\<close> one of 20, 30, 60, the time grid has
  \<open>fps * seconds + 1\<close> samples, starts at 0, ends at \<open>seconds\<close>, is strictly
  increasing and uniformly spaced (by \<open>1 / fps\<close>); for 10 seconds at 20 fps these are
  201 samples spaced by 0.05.
\<close>

theorem time_grid_samples:
  assumes "1 \<le> seconds" "fps \<in> {20, 30, 60}"
  shows "\<exists>x. time_grid seconds fps = Returns x \<and>
           int (length x) = fps * seconds + 1 \<and>
           index x 0 = Returns 0 \<and>
           index x (-1) = Returns (real_of_int seconds) \<and>
           sorted_wrt (<) x \<and>
           (\<forall>i. Suc i < length x \<longrightarrow> x ! Suc i - x ! i = 1 / real_of_int fps)"
proof -
  define n where "n = nat (fps * seconds + 1)"
  define x where "x = map (\<lambda>i. real i / real_of_int fps) [0..<n]"
  have fps: "1 \<le> fps" using assms(2) by auto
  have fs: "1 \<le> fps * seconds"
    using assms(1) fps by (metis mult_mono mult_1 zero_le_one order_trans)
  have n: "int n = fps * seconds + 1" "1 < n"
    using fs by (simp_all add: n_def)
  have grid: "time_grid seconds fps = Returns x"
    unfolding x_def n_def using time_grid_uniform [OF assms(1) fps] .
  have len: "length x = n" by (simp add: x_def)
  have nth: "x ! i = real i / real_of_int fps" if "i < n" for i
    using that by (simp add: x_def)
  have first: "index x 0 = Returns 0"
    using n(2) nth [of 0] by (simp add: index_def len)
  have "real (n - 1) = real_of_int (int n - 1)"
    using n(2) by (simp add: of_nat_diff)
  also have "\<dots> = real_of_int fps * real_of_int seconds"
    using n(1) by simp
  finally have "x ! (n - 1) = real_of_int seconds"
    using nth [of "n - 1"] n(2) fps by simp
  moreover have "nat (int n - 1) = n - 1" by simp
  ultimately have final: "index x (-1) = Returns (real_of_int seconds)"
    using n(2) by (simp add: index_def len)
  have inc: "sorted_wrt (<) x"
    unfolding sorted_wrt_iff_nth_less len
    using fps by (simp add: nth divide_strict_right_mono)
  have gap: "x ! Suc i - x ! i = 1 / real_of_int fps" if "Suc i < length x" for i
  proof -
    have "x ! Suc i - x ! i = real (Suc i) / real_of_int fps - real i / real_of_int fps"
      using that by (simp only: nth len Suc_lessD)
    also have "\<dots> = (real (Suc i) - real i) / real_of_int fps"
      by (simp only: diff_divide_distrib)
    finally show ?thesis by simp
  qed
  show ?thesis
    using grid n(1) first final inc gap by (auto simp: len)
qed

theorem time_grid_samples_witness:
  "\<exists>x. time_grid 10 20 = Returns x \<and> length x = 201 \<and>
     index x 0 = Returns 0 \<and> index x (-1) = Returns 10 \<and> sorted_wrt (<) x \<and>
     (\<forall>i. Suc i < 201 \<longrightarrow> x ! Suc i - x ! i = 0.05)"
proof -
  obtain x where x: "time_grid 10 20 = Returns x" "int (length x) = 20 * 10 + 1"
      "index x 0 = Returns 0" "index x (-1) = Returns (real_of_int 10)" "sorted_wrt (<) x"
      "\<forall>i. Suc i < length x \<longrightarrow> x ! Suc i - x ! i = 1 / real_of_int 20"
    using time_grid_samples [of 10 20] by auto
  have "length x = 201" using x(2) by simp
  then show ?thesis using x by auto
qed

subsection \<open>The simulation\<close>

lemma time_grid_upper:
  assumes "0 \<le> seconds" "1 \<le> fps" "time_grid seconds fps = Returns x"
  shows "\<forall>t \<in> set x. t \<le> real_of_int seconds"
proof (cases "seconds = 0")
  case True
  then have "x = [0]"
    using assms(3) by (simp add: time_grid_def linspace_def)
  then show ?thesis using True by simp
next
  case False
  then have s: "1 \<le> seconds" using assms(1) by simp
  have x: "x = map (\<lambda>i. real i / real_of_int fps) [0..<nat (fps * seconds + 1)]"
    using time_grid_uniform [OF s assms(2)] assms(3) by simp
  have "real i / real_of_int fps \<le> real_of_int seconds"
    if "i < nat (fps * seconds + 1)" for i
  proof -
    have "int i \<le> fps * seconds" using that by linarith
    then have "real_of_int (int i) \<le> real_of_int (fps * seconds)"
      by (simp only: of_int_le_iff)
    then have "real i \<le> real_of_int seconds * real_of_int fps"
      by (simp add: mult.commute)
    then show ?thesis
      using assms(2) by (simp add: pos_divide_le_eq)
  qed
  then show ?thesis unfolding x by auto
qed

lemma series_length:
  assumes "series Cd A h m air_resistance mode x = Returns y"
  shows "length y = length x"
  using assms
  by (auto simp: series_def velocity_def height_def velocity_with_air_resistance_def
      height_with_air_resistance_def and_then_Returns_iff split: if_splits)

lemma series_free_fall_returns:
  "returns (series Cd A h m False mode x)"
  by (simp add: series_def)

lemma series_returns:
  assumes "air_resistance \<longrightarrow>
      (\<exists>vt. terminal_velocity_with_air_resistance Cd A m = Returns vt \<and> 0 < vt \<and>
            (\<forall>t \<in> set x. \<not> overflows (2 * g * t / vt)))"
  shows "\<exists>y. series Cd A h m air_resistance mode x = Returns y"
proof (cases air_resistance)
  case False
  then show ?thesis by (simp add: series_def)
next
  case True
  then obtain vt where tv: "terminal_velocity_with_air_resistance Cd A m = Returns vt"
    and p: "0 < vt" and fin: "\<forall>t \<in> set x. \<not> overflows (2 * g * t / vt)"
    using assms by blast
  show ?thesis
    using True velocity_with_air_resistance_pos [OF tv p fin]
      height_with_air_resistance_pos [OF tv p fin, of h]
    by (auto simp: series_def)
qed

lemma index_returns:
  assumes "xs \<noteq> []"
  shows "\<exists>v. index xs 0 = Returns v" and "\<exists>v. index xs (-1) = Returns v"
  using assms by (simp_all add: index_def)

lemma y_axis_returns:
  assumes "y \<noteq> []"
  shows "\<exists>l. y_axis mode y = Returns l"
proof -
  obtain a b where ab: "index y 0 = Returns a" "index y (-1) = Returns b"
    using index_returns [OF assms] by blast
  show ?thesis
  proof (cases "mode = mode_velocity")
    case True
    then have "y_axis mode y = Returns ((0, b * 1.1), ''Velocity (m/s)'')"
      using ab by (simp add: y_axis_def)
    then show ?thesis by blast
  next
    case False
    then have "y_axis mode y = Returns ((b * 1.1, a * 1.1), ''Height (m)'')"
      using ab by (simp add: y_axis_def)
    then show ?thesis by blast
  qed
qed

lemma simulate_Returns_D:
  assumes "simulate Cd A h m air_resistance mode seconds fps = Returns r"
  shows "time_grid seconds fps = Returns (data_x r)"
    and "series Cd A h m air_resistance mode (data_x r) = Returns (data_y r)"
    and "y_axis mode (data_y r) = Returns (ylim r, ylabel r)"
    and "true_div 1000 (real_of_int fps) = Returns (interval r)"
    and "func r = update (data_x r) (data_y r)"
    and "frames r = int (length (data_x r))"
  using assms
  by (auto simp: simulate_def and_then_Returns_iff)

lemma simulate_series_raises:
  assumes "time_grid seconds fps = Returns x"
    and "series Cd A h m air_resistance mode x = Raises e"
  shows "simulate Cd A h m air_resistance mode seconds fps = Raises e"
  by (simp only: simulate_def assms and_then.simps)

lemma simulate_empty_grid:
  assumes "time_grid seconds fps = Returns []"
    and "series Cd A h m air_resistance mode [] = Returns y"
  shows "simulate Cd A h m air_resistance mode seconds fps = Raises IndexError"
proof -
  have i: "index ([] :: real list) 0 = Raises IndexError"
    by (simp add: index_def)
  show ?thesis
    by (simp only: simulate_def assms i and_then.simps)
qed

lemma simulate_after_series:
  assumes x: "time_grid seconds fps = Returns x"
    and y: "series Cd A h m air_resistance mode x = Returns y"
    and xne: "x \<noteq> []"
  shows "fps = 0 \<Longrightarrow>
           simulate Cd A h m air_resistance mode seconds fps = Raises ZeroDivisionError"
    and "fps \<noteq> 0 \<Longrightarrow>
           \<exists>r. simulate Cd A h m air_resistance mode seconds fps = Returns r \<and>
               data_x r = x \<and> data_y r = y"
proof -
  have yne: "y \<noteq> []" using series_length [OF y] xne by auto
  obtain a b where ab: "index x 0 = Returns a" "index x (-1) = Returns b"
    using index_returns [OF xne] by blast
  obtain lims lab where l: "y_axis mode y = Returns (lims, lab)"
    using y_axis_returns [OF yne] by (metis prod.exhaust)
  show "simulate Cd A h m air_resistance mode seconds fps = Raises ZeroDivisionError"
    if "fps = 0"
  proof -
    have d: "true_div 1000 (real_of_int fps) = Raises ZeroDivisionError"
      using that by (simp add: true_div_def)
    show ?thesis
      by (simp only: simulate_def x y ab l d and_then.simps prod.case)
  qed
  show "\<exists>r. simulate Cd A h m air_resistance mode seconds fps = Returns r \<and>
          data_x r = x \<and> data_y r = y"
    if "fps \<noteq> 0"
  proof -
    have d: "true_div 1000 (real_of_int fps) = Returns (1000 / real_of_int fps)"
      using that by (simp add: true_div_def)
    show ?thesis
      by (simp only: simulate_def x y ab l d and_then.simps prod.case) simp
  qed
qed

lemma simulate_returns:
  assumes "0 \<le> seconds" "1 \<le> fps"
    and "air_resistance \<longrightarrow>
      (\<exists>vt. terminal_velocity_with_air_resistance Cd A m = Returns vt \<and> 0 < vt \<and>
            \<not> overflows (2 * g * real_of_int seconds / vt))"
  shows "\<exists>r. simulate Cd A h m air_resistance mode seconds fps = Returns r"
proof -
  have "0 \<le> fps * seconds" using assms(1,2) by simp
  then have num: "0 \<le> fps * seconds + 1" by simp
  obtain x where x: "time_grid seconds fps = Returns x"
    using time_grid_returns [OF num] by blast
  have "int (length x) = fps * seconds + 1"
    using time_grid_length [OF x] .
  then have xne: "x \<noteq> []" using \<open>0 \<le> fps * seconds\<close> by auto
  have up: "\<forall>t \<in> set x. t \<le> real_of_int seconds"
    using time_grid_upper [OF assms(1,2) x] .
  have fin: "air_resistance \<longrightarrow>
      (\<exists>vt. terminal_velocity_with_air_resistance Cd A m = Returns vt \<and> 0 < vt \<and>
            (\<forall>t \<in> set x. \<not> overflows (2 * g * t / vt)))"
  proof
    assume air_resistance
    then obtain vt where tv: "terminal_velocity_with_air_resistance Cd A m = Returns vt"
      and p: "0 < vt" and last: "\<not> overflows (2 * g * real_of_int seconds / vt)"
      using assms(3) by blast
    have "\<not> overflows (2 * g * t / vt)" if "t \<in> set x" for t
    proof -
      have "t \<le> real_of_int seconds" using up that by blast
      then have "2 * g * t \<le> 2 * g * real_of_int seconds"
        by (simp add: g_def)
      then have "2 * g * t / vt \<le> 2 * g * real_of_int seconds / vt"
        using p by (simp add: divide_right_mono)
      then show ?thesis using last by (rule not_overflows_mono)
    qed
    then show "\<exists>vt. terminal_velocity_with_air_resistance Cd A m = Returns vt \<and> 0 < vt \<and>
            (\<forall>t \<in> set x. \<not> overflows (2 * g * t / vt))"
      using tv p by blast
  qed
  obtain y where y: "series Cd A h m air_resistance mode x = Returns y"
    using series_returns [OF fin] by blast
  have "fps \<noteq> 0" using assms(2) by simp
  then show ?thesis
    using simulate_after_series(2) [OF x y xne] by blast
qed

text \<open>The form's default values, for up to 10 seconds, are far from the overflow.\<close>

lemma default_simulate_returns:
  assumes "0 \<le> seconds" "seconds \<le> 10" "1 \<le> fps"
  shows "\<exists>r. simulate 0.42 19.25 70 1000 air_resistance mode seconds fps = Returns r"
proof -
  obtain vt where tv: "terminal_velocity_with_air_resistance 0.42 19.25 1000 = Returns vt"
    and vt: "40 \<le> vt"
    using default_terminal_velocity by blast
  have "real_of_int seconds \<le> 10" using assms(2) by simp
  then have "\<not> overflows (2 * g * real_of_int seconds / vt)"
    by (rule default_no_overflow [OF tv])
  then have "air_resistance \<longrightarrow>
      (\<exists>vt. terminal_velocity_with_air_resistance 0.42 19.25 1000 = Returns vt \<and> 0 < vt \<and>
            \<not> overflows (2 * g * real_of_int seconds / vt))"
    using tv vt by force
  then show ?thesis
    by (rule simulate_returns [OF assms(1,3)])
qed

lemma mode_height_not_velocity: "mode_height \<noteq> mode_velocity"
  by (simp add: mode_height_def mode_velocity_def)

lemma series_height_mode:
  assumes "mode \<noteq> mode_velocity"
  shows "series Cd A h m air_resistance mode x =
           (if air_resistance then height_with_air_resistance Cd A h m x
            else Returns (height h x))"
  using assms by (simp add: series_def)

lemma y_axis_height_mode:
  assumes "mode \<noteq> mode_velocity"
  shows "y_axis mode y =
           and_then (index y (-1)) (\<lambda>y_last.
           and_then (index y 0) (\<lambda>y_first.
             Returns ((y_last * 1.1, y_first * 1.1), ''Height (m)'')))"
  using assms by (simp add: y_axis_def)

lemma simulate_height_mode:
  assumes "mode \<noteq> mode_velocity"
  shows "simulate Cd A h m air_resistance mode seconds fps =
           simulate Cd A h m air_resistance mode_height seconds fps"
  unfolding simulate_def
    series_height_mode [OF assms] series_height_mode [OF mode_height_not_velocity]
    y_axis_height_mode [OF assms] y_axis_height_mode [OF mode_height_not_velocity]
  by (rule refl)

lemma y_axis_height_label:
  assumes "mode \<noteq> mode_velocity" "y_axis mode y = Returns (lims, lab)"
  shows "lab = ''Height (m)''"
  using assms(2) unfolding y_axis_height_mode [OF assms(1)]
  by (auto simp: and_then_Returns_iff)

text \<open>
  C8. The animation reveals prefixes of the series: frame \<open>k\<close> draws the first
  \<open>k\<close> points of \<open>x\<close> and \<open>y\<close>, the number of frames is the length of
  \<open>x\<close>, which is \<open>fps * seconds + 1\<close>, and the interval is \<open>1000 / fps\<close>
  milliseconds.
\<close>

theorem animation_reveals_prefixes:
  assumes "simulate Cd A h m air_resistance mode seconds fps = Returns r"
  shows "frames r = int (length (data_x r)) \<and>
         frames r = fps * seconds + 1 \<and>
         length (data_y r) = length (data_x r) \<and>
         interval r = 1000 / real_of_int fps \<and>
         (\<forall>k. 0 \<le> k \<and> k < frames r \<longrightarrow>
            func r k = (take (nat k) (data_x r), take (nat k) (data_y r)) \<and>
            length (take (nat k) (data_x r)) = nat k \<and>
            length (take (nat k) (data_y r)) = nat k)"
proof -
  note d = simulate_Returns_D [OF assms]
  have len: "length (data_y r) = length (data_x r)"
    using series_length [OF d(2)] .
  have ms: "interval r = 1000 / real_of_int fps"
    using d(4) by (auto simp: true_div_def split: if_splits)
  have pre: "func r k = (take (nat k) (data_x r), take (nat k) (data_y r)) \<and>
             length (take (nat k) (data_x r)) = nat k \<and>
             length (take (nat k) (data_y r)) = nat k"
    if "0 \<le> k \<and> k < frames r" for k
  proof -
    have "nat k \<le> length (data_x r)"
      using that by (simp add: d(6) nat_le_iff)
    then show ?thesis
      using that by (simp add: d(5) len update_def slice_to_def)
  qed
  show ?thesis
    using d(6) time_grid_length [OF d(1)] len ms pre by simp
qed

theorem animation_reveals_prefixes_witness:
  "\<exists>r. simulate 0.42 19.25 70 1000 True mode_height 10 20 = Returns r \<and>
     frames r = 201 \<and> interval r = 50 \<and>
     func r 3 = (take 3 (data_x r), take 3 (data_y r))"
proof -
  obtain r where r: "simulate 0.42 19.25 70 1000 True mode_height 10 20 = Returns r"
    using default_simulate_returns [of 10 20 True mode_height] by auto
  show ?thesis
    using animation_reveals_prefixes [OF r] r by auto
qed

text \<open>
  C10. A mode other than the velocity label is never rejected: the choice of the model
  and the configuration of the y axis both take the height branch, so the run is the
  run in height mode, and every run that returns has the height series and the height
  label. No error comes from the mode.
\<close>

theorem unrecognized_mode_is_height:
  assumes "mode \<noteq> mode_velocity"
  shows "series Cd A h m air_resistance mode x =
           (if air_resistance then height_with_air_resistance Cd A h m x
            else Returns (height h x)) \<and>
         y_axis mode y =
           and_then (index y (-1)) (\<lambda>y_last.
           and_then (index y 0) (\<lambda>y_first.
             Returns ((y_last * 1.1, y_first * 1.1), ''Height (m)''))) \<and>
         simulate Cd A h m air_resistance mode seconds fps =
           simulate Cd A h m air_resistance mode_height seconds fps \<and>
         (\<forall>r. simulate Cd A h m air_resistance mode seconds fps = Returns r \<longrightarrow>
            ylabel r = ''Height (m)'' \<and>
            (if air_resistance then height_with_air_resistance Cd A h m (data_x r)
             else Returns (height h (data_x r))) = Returns (data_y r))"
proof -
  have "ylabel r = ''Height (m)'' \<and>
        (if air_resistance then height_with_air_resistance Cd A h m (data_x r)
         else Returns (height h (data_x r))) = Returns (data_y r)"
    if r: "simulate Cd A h m air_resistance mode seconds fps = Returns r" for r
  proof -
    note d = simulate_Returns_D [OF r]
    have "ylabel r = ''Height (m)''"
      using y_axis_height_label [OF assms d(3)] .
    moreover have "(if air_resistance then height_with_air_resistance Cd A h m (data_x r)
         else Returns (height h (data_x r))) = Returns (data_y r)"
      using d(2) unfolding series_height_mode [OF assms] .
    ultimately show ?thesis by blast
  qed
  then show ?thesis
    using series_height_mode [OF assms] y_axis_height_mode [OF assms]
      simulate_height_mode [OF assms]
    by blast
qed

theorem unrecognized_mode_is_height_witness:
  "''speed'' \<noteq> mode_velocity \<and>
   simulate 0.42 19.25 70 1000 True ''speed'' 10 20 =
     simulate 0.42 19.25 70 1000 True mode_height 10 20 \<and>
   (\<exists>r. simulate 0.42 19.25 70 1000 True ''speed'' 10 20 = Returns r \<and>
        ylabel r = ''Height (m)'')"
proof -
  have ne: "''speed'' \<noteq> mode_velocity"
    by (simp add: mode_velocity_def)
  note t = unrecognized_mode_is_height [OF ne, of "0.42" "19.25" 70 1000 True "[]" "[]" 10 20]
  from t have a: "simulate 0.42 19.25 70 1000 True ''speed'' 10 20 =
      simulate 0.42 19.25 70 1000 True mode_height 10 20"
    by blast
  obtain r where r: "simulate 0.42 19.25 70 1000 True ''speed'' 10 20 = Returns r"
    using default_simulate_returns [of 10 20 True "''speed''"] by auto
  from t r have "ylabel r = ''Height (m)''"
    by blast
  then show ?thesis
    using ne a r by blast
qed

subsection \<open>Invalid parameters and configurations\<close>

lemma terminal_velocity_zero:
  assumes "Cd = 0 \<or> A = 0"
  shows "terminal_velocity_with_air_resistance Cd A m = Raises ZeroDivisionError"
  using assms by (auto simp: terminal_velocity_with_air_resistance_def true_div_def)

lemma series_zero:
  assumes "Cd = 0 \<or> A = 0"
  shows "series Cd A h m True mode x = Raises ZeroDivisionError"
  by (simp add: series_def velocity_with_air_resistance_def height_with_air_resistance_def
      terminal_velocity_zero [OF assms])

lemma simulate_zero:
  assumes "Cd = 0 \<or> A = 0" "0 \<le> fps * seconds + 1"
  shows "simulate Cd A h m True mode seconds fps = Raises ZeroDivisionError"
proof -
  obtain x where x: "time_grid seconds fps = Returns x"
    using time_grid_returns [OF assms(2)] by blast
  show ?thesis
    by (simp only: simulate_def x and_then.simps series_zero [OF assms(1)])
qed

lemma simulate_free_fall_ignores_drag:
  "simulate Cd A h m False mode seconds fps = simulate Cd' A' h m False mode seconds fps"
  by (simp add: simulate_def series_def)

lemma simulate_negative_samples:
  assumes "fps * seconds + 1 < 0"
  shows "simulate Cd A h m air_resistance mode seconds fps = Raises ValueError"
  by (simp only: simulate_def time_grid_negative [OF assms] and_then.simps)

text \<open>
  C3. With \<open>Cd = 0\<close> or \<open>A = 0\<close> the air-resistance functions fail, and so does
  \<open>simulate\<close> with air resistance, before anything is rendered. The failure is
  Python's ZeroDivisionError from the division in the terminal velocity (the program has
  no error class of its own), and the free-fall run does not fail: it never reads
  \<open>Cd\<close> or \<open>A\<close>.
\<close>

theorem zero_drag_or_area_raises_ZeroDivisionError:
  assumes "Cd = 0 \<or> A = 0"
  shows "terminal_velocity_with_air_resistance Cd A m = Raises ZeroDivisionError \<and>
         velocity_with_air_resistance Cd A m t = Raises ZeroDivisionError \<and>
         height_with_air_resistance Cd A h m t = Raises ZeroDivisionError \<and>
         (0 \<le> fps * seconds + 1 \<longrightarrow>
            simulate Cd A h m True mode seconds fps = Raises ZeroDivisionError) \<and>
         (0 \<le> seconds \<and> 1 \<le> fps \<longrightarrow>
            returns (simulate Cd A h m False mode seconds fps)) \<and>
         simulate Cd A h m False mode seconds fps =
           simulate Cd' A' h m False mode seconds fps"
proof -
  note tv = terminal_velocity_zero [OF assms, of m]
  have v: "velocity_with_air_resistance Cd A m t = Raises ZeroDivisionError"
    by (simp add: velocity_with_air_resistance_def tv)
  have hh: "height_with_air_resistance Cd A h m t = Raises ZeroDivisionError"
    by (simp add: height_with_air_resistance_def tv)
  have free: "returns (simulate Cd A h m False mode seconds fps)"
    if ok: "0 \<le> seconds \<and> 1 \<le> fps"
  proof -
    obtain r where "simulate Cd A h m False mode seconds fps = Returns r"
      using simulate_returns [of seconds fps False Cd A m h mode] ok by blast
    then show ?thesis by simp
  qed
  show ?thesis
    using tv v hh simulate_zero [OF assms] free
      simulate_free_fall_ignores_drag [of Cd A h m mode seconds fps Cd' A']
    by blast
qed

theorem zero_drag_or_area_raises_ZeroDivisionError_witness:
  "terminal_velocity_with_air_resistance 0 19.25 1000 = Raises ZeroDivisionError \<and>
   simulate 0 19.25 70 1000 True mode_velocity 10 20 = Raises ZeroDivisionError \<and>
   returns (simulate 0 19.25 70 1000 False mode_velocity 10 20)"
proof -
  have z: "(0::real) = 0 \<or> (19.25::real) = 0" by simp
  have n: "(0::int) \<le> 20 * 10 + 1" by simp
  have c: "(0::int) \<le> 10 \<and> (1::int) \<le> 20" by simp
  show ?thesis
    using zero_drag_or_area_raises_ZeroDivisionError
      [OF z, of 1000 "[]" 70 20 10 mode_velocity 0 "19.25"] n c
    by blast
qed

text \<open>
  Without air resistance a zero drag coefficient raises nothing: the run below is a
  usable configuration (10 seconds at 20 fps) and returns its rendering.
\<close>

theorem zero_drag_or_area_counterexample:
  "returns (simulate 0 19.25 70 1000 False mode_height 10 20)"
proof -
  obtain r where "simulate 0 19.25 70 1000 False mode_height 10 20 = Returns r"
    using simulate_returns [of 10 20 False 0 "19.25" 1000 70 mode_height] by auto
  then show ?thesis by simp
qed

text \<open>
  C4. \<open>simulate\<close> does not validate \<open>seconds\<close> and \<open>fps\<close>. A negative number
  of samples is refused by \<open>np.linspace\<close> with a ValueError, before any kinematics.
  In every other configuration the grid of \<open>fps * seconds + 1\<close> samples is built and
  the chosen function evaluated on it (free fall always gives a series); an exception
  of that evaluation is the exception of \<open>simulate\<close>, and on a series \<open>simulate\<close>
  raises IndexError for the empty grid, ZeroDivisionError (at \<open>1000 / fps\<close>) for
  \<open>fps = 0\<close>, and for every \<open>seconds \<ge> 0\<close> and \<open>fps \<ge> 1\<close>, supported or not,
  goes on to the rendering and returns.
\<close>

theorem simulate_without_config_validation:
  "(fps * seconds + 1 < 0 \<longrightarrow>
      simulate Cd A h m air_resistance mode seconds fps = Raises ValueError) \<and>
   (0 \<le> fps * seconds + 1 \<longrightarrow>
      (\<exists>x. time_grid seconds fps = Returns x \<and>
           int (length x) = fps * seconds + 1 \<and>
           (\<not> air_resistance \<longrightarrow> returns (series Cd A h m air_resistance mode x)) \<and>
           (\<forall>e. series Cd A h m air_resistance mode x = Raises e \<longrightarrow>
                simulate Cd A h m air_resistance mode seconds fps = Raises e) \<and>
           (\<forall>y. series Cd A h m air_resistance mode x = Returns y \<longrightarrow>
                (fps * seconds + 1 = 0 \<longrightarrow>
                   simulate Cd A h m air_resistance mode seconds fps = Raises IndexError) \<and>
                (fps = 0 \<longrightarrow>
                   simulate Cd A h m air_resistance mode seconds fps =
                     Raises ZeroDivisionError) \<and>
                (0 \<le> seconds \<and> 1 \<le> fps \<longrightarrow>
                   (\<exists>r. simulate Cd A h m air_resistance mode seconds fps = Returns r \<and>
                        data_x r = x \<and> data_y r = y)))))"
proof (intro conjI impI)
  assume "fps * seconds + 1 < 0"
  then show "simulate Cd A h m air_resistance mode seconds fps = Raises ValueError"
    by (rule simulate_negative_samples)
next
  assume num: "0 \<le> fps * seconds + 1"
  obtain x where x: "time_grid seconds fps = Returns x"
    using time_grid_returns [OF num] by blast
  have len: "int (length x) = fps * seconds + 1"
    using time_grid_length [OF x] .
  have free: "\<not> air_resistance \<longrightarrow> returns (series Cd A h m air_resistance mode x)"
    using series_free_fall_returns [of Cd A h m mode x] by auto
  have exc: "\<forall>e. series Cd A h m air_resistance mode x = Raises e \<longrightarrow>
      simulate Cd A h m air_resistance mode seconds fps = Raises e"
    using simulate_series_raises [OF x] by blast
  have ser: "(fps * seconds + 1 = 0 \<longrightarrow>
          simulate Cd A h m air_resistance mode seconds fps = Raises IndexError) \<and>
       (fps = 0 \<longrightarrow>
          simulate Cd A h m air_resistance mode seconds fps = Raises ZeroDivisionError) \<and>
       (0 \<le> seconds \<and> 1 \<le> fps \<longrightarrow>
          (\<exists>r. simulate Cd A h m air_resistance mode seconds fps = Returns r \<and>
               data_x r = x \<and> data_y r = y))"
    if y: "series Cd A h m air_resistance mode x = Returns y" for y
  proof (intro conjI impI)
    assume "fps * seconds + 1 = 0"
    then have "x = []" using len by simp
    then show "simulate Cd A h m air_resistance mode seconds fps = Raises IndexError"
      using simulate_empty_grid x y by blast
  next
    assume z: "fps = 0"
    then have "x \<noteq> []" using len by auto
    then show "simulate Cd A h m air_resistance mode seconds fps = Raises ZeroDivisionError"
      using simulate_after_series(1) [OF x y] z by blast
  next
    assume ok: "0 \<le> seconds \<and> 1 \<le> fps"
    then have "0 \<le> fps * seconds" by simp
    then have "x \<noteq> []" using len by auto
    moreover have "fps \<noteq> 0" using ok by simp
    ultimately show "\<exists>r. simulate Cd A h m air_resistance mode seconds fps = Returns r \<and>
        data_x r = x \<and> data_y r = y"
      using simulate_after_series(2) [OF x y] by blast
  qed
  show "\<exists>x. time_grid seconds fps = Returns x \<and>
           int (length x) = fps * seconds + 1 \<and>
           (\<not> air_resistance \<longrightarrow> returns (series Cd A h m air_resistance mode x)) \<and>
           (\<forall>e. series Cd A h m air_resistance mode x = Raises e \<longrightarrow>
                simulate Cd A h m air_resistance mode seconds fps = Raises e) \<and>
           (\<forall>y. series Cd A h m air_resistance mode x = Returns y \<longrightarrow>
                (fps * seconds + 1 = 0 \<longrightarrow>
                   simulate Cd A h m air_resistance mode seconds fps = Raises IndexError) \<and>
                (fps = 0 \<longrightarrow>
                   simulate Cd A h m air_resistance mode seconds fps =
                     Raises ZeroDivisionError) \<and>
                (0 \<le> seconds \<and> 1 \<le> fps \<longrightarrow>
                   (\<exists>r. simulate Cd A h m air_resistance mode seconds fps = Returns r \<and>
                        data_x r = x \<and> data_y r = y)))"
    using x len free exc ser by blast
qed

theorem simulate_without_config_validation_witness:
  "(\<exists>r. simulate 0.42 19.25 70 1000 False mode_velocity 0 25 = Returns r \<and>
        int (length (data_x r)) = 1) \<and>
   simulate 0.42 19.25 70 1000 False mode_velocity (-1) 20 = Raises ValueError \<and>
   simulate 0.42 19.25 70 1000 False mode_velocity 5 0 = Raises ZeroDivisionError \<and>
   simulate 0.42 19.25 70 1000 False mode_velocity (-1) 1 = Raises IndexError"
proof -
  note a = simulate_without_config_validation [of 25 0 "0.42" "19.25" 70 1000 False mode_velocity]
  obtain x y where x: "int (length x) = 25 * 0 + 1"
    and y: "series 0.42 19.25 70 1000 False mode_velocity x = Returns y"
    and r: "(0::int) \<le> 0 \<and> (1::int) \<le> 25 \<longrightarrow>
      (\<exists>r. simulate 0.42 19.25 70 1000 False mode_velocity 0 25 = Returns r \<and>
           data_x r = x \<and> data_y r = y)"
    using a by (auto elim: returns.elims)
  obtain r where "simulate 0.42 19.25 70 1000 False mode_velocity 0 25 = Returns r"
    "data_x r = x"
    using r by auto
  then have first: "\<exists>r. simulate 0.42 19.25 70 1000 False mode_velocity 0 25 = Returns r \<and>
      int (length (data_x r)) = 1"
    using x by auto
  have second: "simulate 0.42 19.25 70 1000 False mode_velocity (-1) 20 = Raises ValueError"
    using simulate_without_config_validation
      [of 20 "-1" "0.42" "19.25" 70 1000 False mode_velocity]
    by simp
  have third: "simulate 0.42 19.25 70 1000 False mode_velocity 5 0 = Raises ZeroDivisionError"
    using simulate_without_config_validation
      [of 0 5 "0.42" "19.25" 70 1000 False mode_velocity]
    by (auto elim: returns.elims)
  have fourth: "simulate 0.42 19.25 70 1000 False mode_velocity (-1) 1 = Raises IndexError"
    using simulate_without_config_validation
      [of 1 "-1" "0.42" "19.25" 70 1000 False mode_velocity]
    by (auto elim: returns.elims)
  show ?thesis using first second third fourth by blast
qed

text \<open>
  Neither \<open>seconds = 0\<close> nor an unsupported \<open>fps = 25\<close> makes \<open>simulate\<close>
  fail.
\<close>

theorem config_not_validated_counterexample:
  "returns (simulate 0.42 19.25 70 1000 True mode_velocity 0 20) \<and>
   returns (simulate 0.42 19.25 70 1000 True mode_velocity 10 25)"
proof -
  obtain r where r: "simulate 0.42 19.25 70 1000 True mode_velocity 0 20 = Returns r"
    using default_simulate_returns [of 0 20 True mode_velocity] by auto
  obtain r' where r': "simulate 0.42 19.25 70 1000 True mode_velocity 10 25 = Returns r'"
    using default_simulate_returns [of 10 25 True mode_velocity] by auto
  show ?thesis using r r' by simp
qed

end
